theory Spec2Isabelle
  imports Complex_Main
begin

section \<open>JSON values, exceptions and chain transactions\<close>

text \<open>
  The chain-sync code of \<^verbatim>\<open>aleph/chains/chaindata.py\<close> handles untyped JSON documents
  (Python dicts, lists, strings, numbers, None). A dict is kept as an association list in
  insertion order; a lookup takes the first binding of the key.
\<close>

datatype json =
    JNull
  | JBool bool
  | JNum real
  | JStr string
  | JList "json list"
  | JObj "(string \<times> json) list"

text \<open>
  The exceptions the modelled code raises or lets through. \<^verbatim>\<open>InvalidContent\<close> and
  \<^verbatim>\<open>ContentCurrentlyUnavailable\<close> derive from \<^verbatim>\<open>AlephStorageException\<close>;
  the other constructors are Python built-ins, pydantic's \<^verbatim>\<open>ValidationError\<close> and
  the message-parsing error of the pending-message job. The text of an exception's message is not modelled, except the key
  of a \<^verbatim>\<open>KeyError\<close> and the class name of an exception from outside this code.
\<close>

datatype error =
    InvalidContent
  | ContentCurrentlyUnavailable
  | AlephStorageException
  | InvalidMessageError
  | ValidationError
  | ValueError
  | KeyError string
  | TypeError
  | AssertionError
  | OtherException string

fun is_AlephStorageException :: "error \<Rightarrow> bool" where
  "is_AlephStorageException InvalidContent = True"
| "is_AlephStorageException ContentCurrentlyUnavailable = True"
| "is_AlephStorageException AlephStorageException = True"
| "is_AlephStorageException _ = False"

datatype ChainSyncProtocol = ON_CHAIN_SYNC | OFF_CHAIN_SYNC | SMART_CONTRACT

text \<open>The wire names of the protocols, as the sync envelope of the specification spells them.\<close>

fun protocol_value :: "ChainSyncProtocol \<Rightarrow> string" where
  "protocol_value ON_CHAIN_SYNC = ''aleph-sync''"
| "protocol_value OFF_CHAIN_SYNC = ''aleph-offchain-sync''"
| "protocol_value SMART_CONTRACT = ''smart-contract''"

text \<open>
  A point in time is represented by its POSIX epoch in seconds, so that
  \<^verbatim>\<open>datetime.timestamp()\<close> is the identity (floating-point rounding is not modelled).
\<close>

type_synonym datetime = real

definition timestamp :: "datetime \<Rightarrow> real" where
  "timestamp d = d"

text \<open>\<^verbatim>\<open>ChainTxDb\<close>: chains are named by the value of the \<^verbatim>\<open>Chain\<close> enumeration.\<close>

record ChainTx =
  tx_hash :: string
  tx_chain :: string
  tx_height :: int
  tx_datetime :: datetime
  tx_protocol :: ChainSyncProtocol
  tx_protocol_version :: int
  tx_content :: json

text \<open>\<^verbatim>\<open>MessageDb\<close>, the columns in declaration order (models/messages.py).\<close>

record MessageDb =
  item_hash :: string
  msg_type :: string
  chain :: string
  sender :: string
  signature :: "string option"
  item_type :: string
  item_content :: "string option"
  content :: json
  time :: datetime
  channel :: "string option"
  size :: int

section \<open>Outgoing chain data: \<^verbatim>\<open>get_chaindata\<close>\<close>

definition INCOMING_MESSAGE_AUTHORIZED_FIELDS :: "string list" where
  "INCOMING_MESSAGE_AUTHORIZED_FIELDS =
     [''item_hash'', ''item_content'', ''item_type'', ''chain'', ''channel'',
      ''sender'', ''type'', ''time'', ''signature'']"

definition json_of_opt_str :: "string option \<Rightarrow> json" where
  "json_of_opt_str s = (case s of None \<Rightarrow> JNull | Some v \<Rightarrow> JStr v)"

text \<open>
  \<^verbatim>\<open>MessageDb.to_dict()\<close>: one entry per column, in declaration order. The \<open>time\<close>
  entry still holds the datetime; \<open>message_to_dict\<close> below replaces it by the epoch.
\<close>

definition to_dict :: "MessageDb \<Rightarrow> (string \<times> json) list" where
  "to_dict m =
     [(''item_hash'', JStr (item_hash m)),
      (''type'', JStr (msg_type m)),
      (''chain'', JStr (chain m)),
      (''sender'', JStr (sender m)),
      (''signature'', json_of_opt_str (signature m)),
      (''item_type'', JStr (item_type m)),
      (''item_content'', json_of_opt_str (item_content m)),
      (''content'', content m),
      (''time'', JNum (time m)),
      (''channel'', json_of_opt_str (channel m)),
      (''size'', JNum (of_int (size m)))]"

text \<open>Assignment \<^verbatim>\<open>d[k] = v\<close> on a dict: replace in place, or append a new key.\<close>

fun dict_set :: "string \<Rightarrow> json \<Rightarrow> (string \<times> json) list \<Rightarrow> (string \<times> json) list" where
  "dict_set k v [] = [(k, v)]"
| "dict_set k v ((k', v') # kvs) =
     (if k = k' then (k, v) # kvs else (k', v') # dict_set k v kvs)"

definition message_to_dict :: "MessageDb \<Rightarrow> json" where
  "message_to_dict m =
     (let message_dict = filter (\<lambda>(k, v). k \<in> set INCOMING_MESSAGE_AUTHORIZED_FIELDS) (to_dict m)
      in JObj (dict_set ''time'' (JNum (timestamp (time m))) message_dict))"

definition on_chain_envelope :: "json list \<Rightarrow> json" where
  "on_chain_envelope message_dicts =
     JObj [(''protocol'', JStr (protocol_value ON_CHAIN_SYNC)),
           (''version'', JNum 1),
           (''content'', JObj [(''messages'', JList message_dicts)])]"

definition off_chain_envelope :: "string \<Rightarrow> json" where
  "off_chain_envelope ipfs_id =
     JObj [(''protocol'', JStr (protocol_value OFF_CHAIN_SYNC)),
           (''version'', JNum 1),
           (''content'', JStr ipfs_id)]"

text \<open>
  \<^verbatim>\<open>ChainDataService.get_chaindata(messages, bulk_threshold)\<close>. The JSON text the code
  returns is represented by the document it denotes; \<open>dumps_len v\<close> is
  \<^verbatim>\<open>len(json.dumps(v))\<close>, and \<open>add_json\<close> is the storage service's upload, which
  answers with the hash of the stored document. The second component of the result lists
  the documents uploaded by the call.
\<close>

definition get_chaindata ::
  "(json \<Rightarrow> nat) \<Rightarrow> (json \<Rightarrow> string) \<Rightarrow> MessageDb list \<Rightarrow> int \<Rightarrow> json \<times> json list" where
  "get_chaindata dumps_len add_json messages bulk_threshold =
     (let message_dicts = map message_to_dict messages;
          chaindata = on_chain_envelope message_dicts
      in if int (dumps_len chaindata) > bulk_threshold
         then (off_chain_envelope (add_json chaindata), [chaindata])
         else (chaindata, []))"

section \<open>The database and the external services\<close>

text \<open>\<^verbatim>\<open>StoredFileDb\<close>, as the chain data service fills it.\<close>

record StoredFile =
  sf_hash :: string
  sf_type :: string
  sf_size :: nat

text \<open>A pending message, with the fields the specification lists for it.\<close>

record PendingMessage =
  pm_id :: nat
  pm_item_hash :: string
  pm_sender :: string
  pm_chain :: string
  pm_type :: string
  pm_signature :: "string option"
  pm_item_type :: string
  pm_item_content :: "string option"
  pm_time :: real
  pm_channel :: "string option"
  pm_reception_time :: datetime
  pm_retries :: nat
  pm_next_attempt :: datetime
  pm_fetched :: bool
  pm_check_message :: bool
  pm_origin :: string
  pm_source_tx_hash :: "string option"

datatype MessageStatus = PENDING | PROCESSED | REJECTED | FORGOTTEN | REMOVING

datatype ErrorCode =
    INVALID_FORMAT
  | CONTENT_HASH_MISMATCH
  | INVALID_SIGNATURE
  | CONTENT_VALIDATION_FAILED
  | CONTENT_UNAVAILABLE
  | VM_VOLUME_NOT_FOUND
  | PERMISSION_DENIED
  | EXCEEDED_AMT_OF_RETRIES

text \<open>
  \<^verbatim>\<open>RejectedMessageDb\<close> (models/messages.py). The item hash is \<open>None\<close> when the raw
  message carries none.
\<close>

record RejectedMessage =
  rm_item_hash :: "string option"
  rm_message :: json
  rm_error_code :: ErrorCode
  rm_details :: "json option"
  rm_traceback :: "string option"

text \<open>A reference to a stored file by a virtual machine: \<^verbatim>\<open>ref\<close> and \<^verbatim>\<open>use_latest\<close>.\<close>

record volume_ref =
  vr_ref :: string
  vr_use_latest :: bool

datatype machine_volume =
    ImmutableVolume volume_ref
  | EphemeralVolume nat
  | PersistentVolume string nat

text \<open>
  The content of a program (owner, code, runtime, optional data, volumes) or of an
  instance (owner, optional parent of the root file system, volumes).
\<close>

datatype ExecutableContent =
    ProgramContent string volume_ref volume_ref "volume_ref option" "machine_volume list"
  | InstanceContent string "volume_ref option" "machine_volume list"

text \<open>
  The tables. A table keyed by its primary key is a map: \<open>pending_txs\<close> maps the hash of
  a transaction awaiting expansion to the transaction, \<open>chain_txs\<close> the hash of a recorded
  transaction to it, \<open>message_status\<close> an item hash to its status and reception time,
  \<open>file_pins\<close> the item hash of a pinning message to the hash of the pinned file,
  \<open>file_tags\<close> a tag to the hash of its latest file, \<open>vms\<close> the item hash of a program or
  instance to its content and \<open>vm_versions\<close> to the item hash of its current version.
  \<open>tx_file_pins\<close> lists (file hash, tx hash, creation time) and
  \<open>message_confirmations\<close> (item hash, tx hash).
\<close>

record database =
  chain_txs :: "string \<rightharpoonup> ChainTx"
  pending_txs :: "string \<rightharpoonup> ChainTx"
  stored_files :: "string \<rightharpoonup> StoredFile"
  tx_file_pins :: "(string \<times> string \<times> datetime) list"
  pending_messages :: "PendingMessage list"
  message_status :: "string \<rightharpoonup> MessageStatus \<times> datetime"
  message_confirmations :: "(string \<times> string) list"
  rejected_messages :: "RejectedMessage list"
  message_rows :: "string \<rightharpoonup> MessageDb"
  file_pins :: "string \<rightharpoonup> string"
  file_tags :: "string \<rightharpoonup> string"
  vms :: "string \<rightharpoonup> ExecutableContent"
  vm_versions :: "string \<rightharpoonup> string"

text \<open>What \<^verbatim>\<open>StorageService.get_json\<close> answers: the decoded document, its hash and raw size.\<close>

record fetched_json =
  fetched_value :: json
  fetched_hash :: string
  raw_size :: nat

text \<open>
  \<^verbatim>\<open>asyncio.wait_for(storage_service.pin_hash(h), timeout=120)\<close> completes, times out,
  or raises something else.
\<close>

datatype pin_outcome = Pinned | PinTimeout | PinFailed error

text \<open>\<^verbatim>\<open>MessageEventPayload\<close> (schemas/chains/tezos_indexer_response.py).\<close>

record MessageEventPayload =
  payload_timestamp :: real
  addr :: string
  message_type :: string
  message_content :: string

text \<open>The fields \<^verbatim>\<open>_get_tx_messages_smart_contract_protocol\<close> passes to \<^verbatim>\<open>StoreContent\<close>.\<close>

record StoreContent =
  sc_address :: string
  sc_time :: real
  sc_item_type :: string
  sc_item_hash :: string

text \<open>
  The collaborators of the chain data service and of the pending-tx processor whose code
  is outside the modelled files, as parameters: the configuration flag
  \<^verbatim>\<open>config.ipfs.enabled\<close>, the storage service (\<open>get_json\<close> answers a document or
  raises), the clock, pydantic's \<^verbatim>\<open>MessageEventPayload.parse_obj\<close> (\<open>None\<close> is a
  \<^verbatim>\<open>ValidationError\<close>), the construction of a \<^verbatim>\<open>StoreContent\<close> followed by its
  \<^verbatim>\<open>json()\<close> (\<open>None\<close> is the \<^verbatim>\<open>ValidationError\<close> pydantic raises when it
  rejects a field, as it does for an item hash that is no valid hash),
  \<^verbatim>\<open>get_sha256\<close>, and the message publisher's
  \<^verbatim>\<open>add_pending_message(message_dict, reception_time, tx_hash, check_message)\<close>,
  which commits its own changes to the database.
\<close>

record services =
  ipfs_enabled :: bool
  get_json :: "string \<Rightarrow> error + fetched_json"
  pin_hash :: "string \<Rightarrow> pin_outcome"
  utc_now :: datetime
  parse_obj :: "json \<Rightarrow> MessageEventPayload option"
  store_content_json :: "StoreContent \<Rightarrow> string option"
  get_sha256 :: "string \<Rightarrow> string"
  add_pending_message :: "json \<Rightarrow> datetime \<Rightarrow> string \<Rightarrow> bool \<Rightarrow> database \<Rightarrow> database"

text \<open>
  What a call can change: the caller's \<open>seen_ids\<close> set (\<open>None\<close> when the caller passes
  none), the committed database, and the trace of hashes requested from the storage
  service, oldest first.
\<close>

record world =
  seen_ids :: "string set option"
  db :: database
  fetches :: "string list"

section \<open>Incoming chain data: \<^verbatim>\<open>get_tx_messages\<close>\<close>

text \<open>
  \<^verbatim>\<open>_get_sync_messages\<close>: \<^verbatim>\<open>tx_content["messages"]\<close>. A dict without the key raises
  \<^verbatim>\<open>KeyError\<close>; subscripting anything else with a string raises \<^verbatim>\<open>TypeError\<close>.
\<close>

fun get_sync_messages :: "json \<Rightarrow> error + json" where
  "get_sync_messages (JObj kvs) =
     (case map_of kvs ''messages'' of
        None \<Rightarrow> Inl (KeyError ''messages'')
      | Some v \<Rightarrow> Inr v)"
| "get_sync_messages _ = Inl TypeError"

definition get_tx_messages_on_chain_protocol :: "ChainTx \<Rightarrow> error + json" where
  "get_tx_messages_on_chain_protocol tx =
     (case get_sync_messages (tx_content tx) of
        Inl e \<Rightarrow> Inl e
      | Inr (JList ms) \<Rightarrow> Inr (JList ms)
      | Inr _ \<Rightarrow> Inl InvalidContent)"

text \<open>\<^verbatim>\<open>len(x)\<close> on a JSON value: defined for lists, strings and dicts only.\<close>

fun py_len :: "json \<Rightarrow> error + nat" where
  "py_len (JList xs) = Inr (length xs)"
| "py_len (JStr s) = Inr (length s)"
| "py_len (JObj kvs) = Inr (length kvs)"
| "py_len _ = Inl TypeError"

text \<open>
  The part of \<^verbatim>\<open>_get_tx_messages_off_chain_protocol\<close> under
  \<^verbatim>\<open>if config.ipfs.enabled.value\<close>: the two upserts are committed in a session of
  their own, then the hash is pinned; only a timeout of the pin is swallowed. The
  accessors \<^verbatim>\<open>upsert_stored_file\<close> and \<^verbatim>\<open>upsert_tx_file_pin\<close> are outside the
  modelled files: an upsert replaces the row of the same key, or adds it.
\<close>

definition record_and_pin ::
  "services \<Rightarrow> ChainTx \<Rightarrow> string \<Rightarrow> fetched_json \<Rightarrow> json \<Rightarrow> world \<Rightarrow> (error + json) \<times> world" where
  "record_and_pin svc tx file_hash sync_file_content messages w =
     (let stored_file = \<lparr>sf_hash = fetched_hash sync_file_content, sf_type = ''file'',
                           sf_size = raw_size sync_file_content\<rparr>;
          d = db w;
          d1 = d\<lparr>stored_files := (stored_files d)(sf_hash stored_file \<mapsto> stored_file)\<rparr>;
          d2 = d1\<lparr>tx_file_pins :=
                    filter (\<lambda>(f, t, created). \<not> (f = file_hash \<and> t = tx_hash tx)) (tx_file_pins d1)
                      @ [(file_hash, tx_hash tx, utc_now svc)]\<rparr>;
          w' = w\<lparr>db := d2\<rparr>
      in case pin_hash svc file_hash of
           Pinned \<Rightarrow> (Inr messages, w')
         | PinTimeout \<Rightarrow> (Inr messages, w')
         | PinFailed e \<Rightarrow> (Inl e, w'))"

text \<open>
  The storage fetch of the off-chain protocol and what follows it. The request is logged
  in \<open>fetches\<close>; an \<^verbatim>\<open>AlephStorageException\<close> passes through, any other exception of
  the storage service becomes \<^verbatim>\<open>ContentCurrentlyUnavailable\<close>.
\<close>

definition fetch_sync_file ::
  "services \<Rightarrow> ChainTx \<Rightarrow> string \<Rightarrow> world \<Rightarrow> (error + json) \<times> world" where
  "fetch_sync_file svc tx file_hash w0 =
     (let w = w0\<lparr>fetches := fetches w0 @ [file_hash]\<rparr>
      in case get_json svc file_hash of
           Inl e \<Rightarrow>
             (if is_AlephStorageException e then (Inl e, w)
              else (Inl ContentCurrentlyUnavailable, w))
         | Inr sync_file_content \<Rightarrow>
             (case get_sync_messages (fetched_value sync_file_content) of
                Inl e \<Rightarrow> (Inl e, w)
              | Inr messages \<Rightarrow>
                  (case py_len messages of
                     Inl e \<Rightarrow> (Inl e, w)
                   | Inr n \<Rightarrow>
                       (if ipfs_enabled svc
                        then record_and_pin svc tx file_hash sync_file_content messages w
                        else (Inr messages, w)))))"

definition get_tx_messages_off_chain_protocol ::
  "services \<Rightarrow> ChainTx \<Rightarrow> world \<Rightarrow> (error + json) \<times> world" where
  "get_tx_messages_off_chain_protocol svc tx w =
     (case tx_content tx of
        JStr file_hash \<Rightarrow>
          (case seen_ids w of
             None \<Rightarrow> fetch_sync_file svc tx file_hash w
           | Some seen \<Rightarrow>
               (if file_hash \<in> seen then (Inr (JList []), w)
                else fetch_sync_file svc tx file_hash
                       (w\<lparr>seen_ids := Some (insert file_hash seen)\<rparr>)))
      | _ \<Rightarrow> (Inl AssertionError, w))"

text \<open>
  \<^verbatim>\<open>_get_tx_messages_smart_contract_protocol\<close>. Only the parsing of the payload is
  inside the \<^verbatim>\<open>try\<close>: a \<^verbatim>\<open>ValidationError\<close> there becomes
  \<^verbatim>\<open>InvalidContent\<close>, while one raised by \<^verbatim>\<open>StoreContent(...)\<close> further down
  leaves the function as it is. The chain of the synthesised message is the constant
  \<^verbatim>\<open>Chain.TEZOS.value\<close>, its type \<^verbatim>\<open>MessageType.store.value\<close>.
\<close>

definition get_tx_messages_smart_contract_protocol :: "services \<Rightarrow> ChainTx \<Rightarrow> error + json" where
  "get_tx_messages_smart_contract_protocol svc tx =
     (case parse_obj svc (tx_content tx) of
        None \<Rightarrow> Inl InvalidContent
      | Some payload \<Rightarrow>
          (if message_type payload \<noteq> ''STORE_IPFS'' then Inl ValueError
           else
             (case store_content_json svc
                     \<lparr>sc_address = addr payload, sc_time = payload_timestamp payload,
                      sc_item_type = ''ipfs'', sc_item_hash = message_content payload\<rparr> of
                None \<Rightarrow> Inl ValidationError
              | Some serialised \<Rightarrow>
                  (let item_content = serialised;
                       item_hash = get_sha256 svc item_content
                   in Inr (JList
                        [JObj [(''item_hash'', JStr item_hash),
                               (''sender'', JStr (addr payload)),
                               (''chain'', JStr ''TEZOS''),
                               (''signature'', JNull),
                               (''type'', JStr ''STORE''),
                               (''item_content'', JStr item_content),
                               (''item_type'', JStr ''inline''),
                               (''time'', JNum (timestamp (tx_datetime tx)))]])))))"

definition get_tx_messages :: "services \<Rightarrow> ChainTx \<Rightarrow> world \<Rightarrow> (error + json) \<times> world" where
  "get_tx_messages svc tx w =
     (if tx_protocol tx = ON_CHAIN_SYNC \<and> tx_protocol_version tx = 1
        then (get_tx_messages_on_chain_protocol tx, w)
      else if tx_protocol tx = OFF_CHAIN_SYNC \<and> tx_protocol_version tx = 1
        then get_tx_messages_off_chain_protocol svc tx w
      else if tx_protocol tx = SMART_CONTRACT \<and> tx_protocol_version tx = 1
        then (get_tx_messages_smart_contract_protocol svc tx, w)
      else (Inl InvalidContent, w))"



section \<open>The pending-tx processor: \<^verbatim>\<open>handle_pending_tx\<close>\<close>






section \<open>Publishing and reading back an envelope\<close>

fun protocol_of_value :: "string \<Rightarrow> ChainSyncProtocol option" where
  "protocol_of_value p =
     (if p = ''aleph-sync'' then Some ON_CHAIN_SYNC
      else if p = ''aleph-offchain-sync'' then Some OFF_CHAIN_SYNC
      else if p = ''smart-contract'' then Some SMART_CONTRACT
      else None)"

text \<open>
  Modelled from the spec: the chain connector that records a published sync envelope as
  a \<^verbatim>\<open>ChainTx\<close> is not among the modelled files. Following the data model and the
  envelope layout of the specification, the envelope's \<open>protocol\<close>, \<open>version\<close> and
  \<open>content\<close> become the transaction's protocol, protocol version and content; hash,
  chain, height and time come from the chain.
\<close>

definition tx_of_envelope :: "string \<Rightarrow> string \<Rightarrow> int \<Rightarrow> datetime \<Rightarrow> json \<Rightarrow> ChainTx option" where
  "tx_of_envelope h c height t env =
     (case env of
        JObj kvs \<Rightarrow>
          (case (map_of kvs ''protocol'', map_of kvs ''version'', map_of kvs ''content'') of
             (Some (JStr p), Some (JNum v), Some cnt) \<Rightarrow>
               (case protocol_of_value p of
                  Some proto \<Rightarrow>
                    (if of_int \<lfloor>v\<rfloor> = v
                     then Some \<lparr>tx_hash = h, tx_chain = c, tx_height = height, tx_datetime = t,
                                tx_protocol = proto, tx_protocol_version = \<lfloor>v\<rfloor>,
                                tx_content = cnt\<rparr>
                     else None)
                | None \<Rightarrow> None)
           | _ \<Rightarrow> None)
      | _ \<Rightarrow> None)"

text \<open>
  Modelled from the spec: a storage service that answers, for a hash, exactly the
  document that was uploaded under it (\<open>add_json\<close> names the hash of a document), and
  reports any other hash as currently unavailable.
\<close>

definition stored_json :: "(json \<Rightarrow> string) \<Rightarrow> (json \<Rightarrow> nat) \<Rightarrow> json list \<Rightarrow> string \<Rightarrow> error + fetched_json" where
  "stored_json add_json dumps_len uploads h =
     (case find (\<lambda>doc. add_json doc = h) uploads of
        None \<Rightarrow> Inl ContentCurrentlyUnavailable
      | Some doc \<Rightarrow> Inr \<lparr>fetched_value = doc, fetched_hash = h, raw_size = dumps_len doc\<rparr>)"

text \<open>
  Encoding a batch with \<open>get_chaindata\<close>, recording the outcome as a transaction and
  decoding it with \<open>get_tx_messages\<close>, the storage service answering with what the
  encoder uploaded.
\<close>

definition decode_encoded ::
  "services \<Rightarrow> (json \<Rightarrow> nat) \<Rightarrow> (json \<Rightarrow> string) \<Rightarrow> MessageDb list \<Rightarrow> int \<Rightarrow>
   string \<Rightarrow> string \<Rightarrow> int \<Rightarrow> datetime \<Rightarrow> world \<Rightarrow> (error + json) option" where
  "decode_encoded svc dumps_len add_json msgs T h c height t w =
     (case get_chaindata dumps_len add_json msgs T of
        (env, uploads) \<Rightarrow>
          (case tx_of_envelope h c height t env of
             None \<Rightarrow> None
           | Some tx \<Rightarrow>
               Some (fst (get_tx_messages
                            (svc\<lparr>get_json := stored_json add_json dumps_len uploads\<rparr>) tx w))))"

section \<open>The pending-message job: \<^verbatim>\<open>process_pending_messages.py\<close>\<close>

text \<open>
  A document of the pending-message collection: its \<^verbatim>\<open>_id\<close>, the raw message and
  the fields of \<^verbatim>\<open>source\<close>, each of which may be absent.
\<close>

record pending_doc =
  doc_id :: nat
  doc_message :: json
  source_chain_name :: "string option"
  source_tx_hash :: "string option"
  source_height :: "int option"
  source_check_message :: "bool option"

text \<open>
  The \<open>seen_ids\<close> dictionary of the job: (item hash, sender, chain name) to height, in
  insertion order.
\<close>

type_synonym seen_key = "string \<times> string \<times> string option"

type_synonym seen_heights = "(seen_key \<times> int) list"

text \<open>
  The operations of a bulk write: \<^verbatim>\<open>DeleteOne({"_id": i})\<close>, the
  \<^verbatim>\<open>DeleteMany\<close> of the clean-up (item hash, sender, chain name, and the bound of
  \<^verbatim>\<open>{"$gt": height}\<close>), and any operation built elsewhere, named by a description.
\<close>

datatype operation =
    DeleteOne nat
  | DeleteMany string string "string option" int
  | OtherOperation string

record DbBulkOperation =
  collection :: string
  operation :: operation

datatype IncomingStatus = FAILED_PERMANENTLY | RETRYING_LATER | MESSAGE_HANDLED

text \<open>
  \<^verbatim>\<open>handle_pending_message(pending, sem, seen_ids)\<close>. \<open>parse_message\<close> and
  \<open>incoming\<close> are defined outside the modelled files and are parameters; \<open>incoming\<close>
  gets the parsed message, chain name, tx hash, height, \<open>seen_ids\<close>, the
  \<open>check_message\<close> flag and the id of the document, and answers a status and operations
  (or raises) and the updated \<open>seen_ids\<close>. The semaphore only serialises tasks.
\<close>

definition handle_pending_message ::
  "(json \<Rightarrow> error + 'm) \<Rightarrow>
   ('m \<Rightarrow> string option \<Rightarrow> string option \<Rightarrow> int option \<Rightarrow> seen_heights \<Rightarrow> bool \<Rightarrow> nat \<Rightarrow>
      (error + IncomingStatus \<times> DbBulkOperation list) \<times> seen_heights) \<Rightarrow>
   pending_doc \<Rightarrow> seen_heights \<Rightarrow> (error + DbBulkOperation list) \<times> seen_heights" where
  "handle_pending_message parse_message incoming pending seen =
     (let delete_pending_message_op =
            \<lparr>collection = ''PendingMessage'', operation = DeleteOne (doc_id pending)\<rparr>
      in case parse_message (doc_message pending) of
           Inl e \<Rightarrow>
             (if e = InvalidMessageError then (Inr [delete_pending_message_op], seen)
              else (Inl e, seen))
         | Inr message \<Rightarrow>
             (case incoming message (source_chain_name pending) (source_tx_hash pending)
                     (source_height pending) seen
                     (case source_check_message pending of None \<Rightarrow> True | Some b \<Rightarrow> b)
                     (doc_id pending) of
                (Inl e, seen') \<Rightarrow> (Inl e, seen')
              | (Inr (status, operations), seen') \<Rightarrow>
                  (if status \<noteq> RETRYING_LATER
                   then (Inr (operations @ [delete_pending_message_op]), seen')
                   else (Inr operations, seen'))))"

text \<open>The value of a field of a JSON dict, as a query on \<^verbatim>\<open>message.<field>\<close> reads it.\<close>

fun json_get :: "string \<Rightarrow> json \<Rightarrow> json option" where
  "json_get k (JObj kvs) = map_of kvs k"
| "json_get k _ = None"

text \<open>
  Whether a document matches the filter of a clean-up \<^verbatim>\<open>DeleteMany\<close>: equal item hash,
  sender and chain name, and a height strictly greater than the bound. A document
  without height does not match \<^verbatim>\<open>$gt\<close>.
\<close>

definition matches_clean_filter :: "string \<Rightarrow> string \<Rightarrow> string option \<Rightarrow> int \<Rightarrow> pending_doc \<Rightarrow> bool" where
  "matches_clean_filter ih sndr chain_name height d =
     (json_get ''item_hash'' (doc_message d) = Some (JStr ih)
      \<and> json_get ''sender'' (doc_message d) = Some (JStr sndr)
      \<and> source_chain_name d = chain_name
      \<and> (case source_height d of None \<Rightarrow> False | Some x \<Rightarrow> x > height))"

fun remove_first_id :: "nat \<Rightarrow> pending_doc list \<Rightarrow> pending_doc list" where
  "remove_first_id i [] = []"
| "remove_first_id i (d # ds) = (if doc_id d = i then ds else d # remove_first_id i ds)"

fun apply_operation :: "operation \<Rightarrow> pending_doc list \<Rightarrow> pending_doc list" where
  "apply_operation (DeleteOne i) coll = remove_first_id i coll"
| "apply_operation (DeleteMany ih s c h) coll =
     filter (\<lambda>d. \<not> matches_clean_filter ih s c h d) coll"
| "apply_operation (OtherOperation _) coll = coll"

fun bulk_write :: "operation list \<Rightarrow> pending_doc list \<Rightarrow> pending_doc list" where
  "bulk_write [] coll = coll"
| "bulk_write (a # actions) coll = bulk_write actions (apply_operation a coll)"

definition clean_actions :: "seen_heights \<Rightarrow> operation list" where
  "clean_actions seen = map (\<lambda>((ih, s, c), height). DeleteMany ih s c height) seen"

text \<open>
  The clean-up at the end of an iteration of the scan loop of
  \<open>process_pending_messages\<close>: when the collection counts more than 100000 documents,
  one \<^verbatim>\<open>DeleteMany\<close> per entry of \<open>seen_ids\<close> is written in bulk.
\<close>

definition clean_pending_messages :: "seen_heights \<Rightarrow> pending_doc list \<Rightarrow> pending_doc list" where
  "clean_pending_messages seen coll =
     (if length coll > 100000 then bulk_write (clean_actions seen) coll else coll)"

section \<open>The message publisher: \<^verbatim>\<open>add_pending_message\<close>\<close>

text \<open>The typed candidate of a message dict: the authorised fields.\<close>

record candidate =
  c_item_hash :: string
  c_sender :: string
  c_chain :: string
  c_type :: string
  c_signature :: "string option"
  c_item_type :: string
  c_item_content :: "string option"
  c_time :: real
  c_channel :: "string option"

text \<open>
  What the specification leaves open in the well-formedness of a message: the syntax of
  an item hash and the members of the type and chain enumerations.
\<close>

record admission_rules =
  valid_item_hash :: "string \<Rightarrow> bool"
  valid_type :: "string \<Rightarrow> bool"
  valid_chain :: "string \<Rightarrow> bool"

fun opt_str_field :: "json option \<Rightarrow> string option option" where
  "opt_str_field None = Some None"
| "opt_str_field (Some JNull) = Some None"
| "opt_str_field (Some (JStr s)) = Some (Some s)"
| "opt_str_field (Some _) = None"

text \<open>
  Modelled from the spec: steps 1 and 2 of the admission gate, whose code
  (\<^verbatim>\<open>MessagePublisher\<close> and the pending-message schema) is not among the modelled files.
  The dict is cut down to the authorised fields; item hash, sender, chain and type must be
  strings, the time a number, the item type one of \<open>inline\<close>, \<open>storage\<close>, \<open>ipfs\<close>;
  signature, item content and channel may be absent or null.
\<close>

definition parse_candidate :: "admission_rules \<Rightarrow> json \<Rightarrow> candidate option" where
  "parse_candidate rules message_dict =
     (case message_dict of
        JObj kvs \<Rightarrow>
          (let fields = filter (\<lambda>(k, v). k \<in> set INCOMING_MESSAGE_AUTHORIZED_FIELDS) kvs
           in case (map_of fields ''item_hash'', map_of fields ''sender'', map_of fields ''chain'',
                    map_of fields ''type'', map_of fields ''item_type'', map_of fields ''time'',
                    opt_str_field (map_of fields ''signature''),
                    opt_str_field (map_of fields ''item_content''),
                    opt_str_field (map_of fields ''channel'')) of
                (Some (JStr ih), Some (JStr s), Some (JStr c), Some (JStr ty), Some (JStr it),
                 Some (JNum t), Some sig, Some ic, Some ch) \<Rightarrow>
                  (if valid_item_hash rules ih \<and> valid_type rules ty \<and> valid_chain rules c
                      \<and> it \<in> {''inline'', ''storage'', ''ipfs''}
                   then Some \<lparr>c_item_hash = ih, c_sender = s, c_chain = c, c_type = ty,
                              c_signature = sig, c_item_type = it, c_item_content = ic,
                              c_time = t, c_channel = ch\<rparr>
                   else None)
              | _ \<Rightarrow> None)
      | _ \<Rightarrow> None)"

type_synonym logical_key = "string \<times> string \<times> string option \<times> int option"

text \<open>
  Modelled from the spec: the logical key (item hash, sender, source chain, source height).
  Source chain and height are those of the recorded transaction named by the source tx
  hash, and absent when there is none.
\<close>

definition source_key :: "database \<Rightarrow> string \<Rightarrow> string \<Rightarrow> string option \<Rightarrow> logical_key" where
  "source_key d ih s txh =
     (case txh of
        None \<Rightarrow> (ih, s, None, None)
      | Some h \<Rightarrow>
          (case chain_txs d h of
             None \<Rightarrow> (ih, s, None, None)
           | Some tx \<Rightarrow> (ih, s, Some (tx_chain tx), Some (tx_height tx))))"

definition logical_key_of :: "database \<Rightarrow> PendingMessage \<Rightarrow> logical_key" where
  "logical_key_of d p = source_key d (pm_item_hash p) (pm_sender p) (pm_source_tx_hash p)"

definition fresh_id :: "PendingMessage list \<Rightarrow> nat" where
  "fresh_id rows = Suc (fold max (map pm_id rows) 0)"

text \<open>The database and the events published to the pending-message exchange, oldest first.\<close>

record publisher_state =
  p_db :: database
  published :: "logical_key list"

definition raw_item_hash :: "json \<Rightarrow> string option" where
  "raw_item_hash message_dict =
     (case message_dict of
        JObj kvs \<Rightarrow> (case map_of kvs ''item_hash'' of Some (JStr h) \<Rightarrow> Some h | _ \<Rightarrow> None)
      | _ \<Rightarrow> None)"

text \<open>
  Modelled from the spec: the row inserted at step 4, with no retries yet, the next
  attempt due now, and the content counted as fetched exactly for an inline message.
\<close>

definition new_pending_message ::
  "candidate \<Rightarrow> nat \<Rightarrow> datetime \<Rightarrow> datetime \<Rightarrow> string \<Rightarrow> string option \<Rightarrow> bool \<Rightarrow> PendingMessage" where
  "new_pending_message c i reception_time now origin txh check_message =
     \<lparr>pm_id = i,
      pm_item_hash = c_item_hash c, pm_sender = c_sender c,
      pm_chain = c_chain c, pm_type = c_type c,
      pm_signature = c_signature c, pm_item_type = c_item_type c,
      pm_item_content = c_item_content c, pm_time = c_time c,
      pm_channel = c_channel c, pm_reception_time = reception_time,
      pm_retries = 0, pm_next_attempt = now,
      pm_fetched = (c_item_type c = ''inline''),
      pm_check_message = check_message, pm_origin = origin,
      pm_source_tx_hash = txh\<rparr>"

definition insert_pending_message :: "PendingMessage \<Rightarrow> database \<Rightarrow> database" where
  "insert_pending_message new d =
     d\<lparr>pending_messages := pending_messages d @ [new],
       message_status :=
         (case message_status d (pm_item_hash new) of
            None \<Rightarrow> (message_status d)(pm_item_hash new \<mapsto> (PENDING, pm_reception_time new))
          | Some _ \<Rightarrow> message_status d)\<rparr>"

definition ensure_confirmation :: "string \<Rightarrow> string option \<Rightarrow> database \<Rightarrow> database" where
  "ensure_confirmation ih txh d =
     (case txh of
        None \<Rightarrow> d
      | Some h \<Rightarrow>
          (if (ih, h) \<in> set (message_confirmations d) then d
           else d\<lparr>message_confirmations := message_confirmations d @ [(ih, h)]\<rparr>))"

definition record_invalid_format :: "json \<Rightarrow> database \<Rightarrow> database" where
  "record_invalid_format message_dict d =
     d\<lparr>rejected_messages := rejected_messages d @
          [\<lparr>rm_item_hash = raw_item_hash message_dict, rm_message = message_dict,
            rm_error_code = INVALID_FORMAT, rm_details = None, rm_traceback = None\<rparr>]\<rparr>"

text \<open>
  Modelled from the spec: \<^verbatim>\<open>add_pending_message(message_dict, reception_time, origin,
  tx_hash, check_message)\<close>, steps 1 to 6 of the admission gate (the code of the function
  is not among the modelled files; only a test of it is). \<open>now\<close> is the clock read for
  \<open>next_attempt\<close>. An ill-formed dict is recorded as rejected with \<open>INVALID_FORMAT\<close> and
  answered with \<open>None\<close>. Otherwise the row with the logical key of the message is returned
  as it is when there is one, and inserted when there is none, with a status row if the
  item hash has none; then the confirmation is ensured and the event published.
\<close>

definition add_pending_message_spec ::
  "admission_rules \<Rightarrow> datetime \<Rightarrow> json \<Rightarrow> datetime \<Rightarrow> string \<Rightarrow> string option \<Rightarrow> bool \<Rightarrow>
   publisher_state \<Rightarrow> PendingMessage option \<times> publisher_state" where
  "add_pending_message_spec rules now message_dict reception_time origin txh check_message st =
     (let d = p_db st in
      case parse_candidate rules message_dict of
        None \<Rightarrow> (None, st\<lparr>p_db := record_invalid_format message_dict d\<rparr>)
      | Some c \<Rightarrow>
          (let key = source_key d (c_item_hash c) (c_sender c) txh;
               (row, d1) =
                 (case find (\<lambda>p. logical_key_of d p = key) (pending_messages d) of
                    Some existing \<Rightarrow> (existing, d)
                  | None \<Rightarrow>
                      (let new = new_pending_message c (fresh_id (pending_messages d))
                                   reception_time now origin txh check_message
                       in (new, insert_pending_message new d)));
               d2 = ensure_confirmation (c_item_hash c) txh d1
           in (Some row, st\<lparr>p_db := d2, published := published st @ [key]\<rparr>)))"

section \<open>The pending-message pipeline for programs and instances\<close>

text \<open>
  \<^verbatim>\<open>get_volume_refs\<close> (tests/message_processing/test_process_instances.py): the
  immutable volumes in order, then code, runtime and data of a program, or the parent of
  the root file system of an instance.
\<close>

fun immutable_refs :: "machine_volume list \<Rightarrow> volume_ref list" where
  "immutable_refs [] = []"
| "immutable_refs (ImmutableVolume v # vs) = v # immutable_refs vs"
| "immutable_refs (_ # vs) = immutable_refs vs"

fun get_volume_refs :: "ExecutableContent \<Rightarrow> volume_ref list" where
  "get_volume_refs (ProgramContent owner code runtime data volumes) =
     immutable_refs volumes @ [code, runtime] @ (case data of None \<Rightarrow> [] | Some d \<Rightarrow> [d])"
| "get_volume_refs (InstanceContent owner parent volumes) =
     immutable_refs volumes @ (case parent of None \<Rightarrow> [] | Some p \<Rightarrow> [p])"

text \<open>
  Modelled from the spec: a declared volume resolves to a \<^verbatim>\<open>StoredFile\<close> through the
  tag named by its ref (latest) or through the file pinned by the message of that item
  hash (exact pin). The type handlers are not among the modelled files.
\<close>

definition resolve_volume :: "database \<Rightarrow> volume_ref \<Rightarrow> StoredFile option" where
  "resolve_volume d v =
     (case (if vr_use_latest v then file_tags d (vr_ref v) else file_pins d (vr_ref v)) of
        None \<Rightarrow> None
      | Some file_hash \<Rightarrow> stored_files d file_hash)"

datatype handler_result =
    Committed
  | Rejected ErrorCode "json option"
  | RetryLater "json option"

text \<open>
  Modelled from the spec: the handler of program and instance messages. Any missing ref
  rejects the message with \<open>VM_VOLUME_NOT_FOUND\<close> and the missing refs under
  \<open>details.errors\<close>; otherwise the VM row and its current-version pointer are created.
\<close>

definition vm_handler :: "PendingMessage \<Rightarrow> ExecutableContent \<Rightarrow> database \<Rightarrow> handler_result \<times> database" where
  "vm_handler pm c d =
     (let missing = map vr_ref (filter (\<lambda>v. resolve_volume d v = None) (get_volume_refs c))
      in if missing \<noteq> []
         then (Rejected VM_VOLUME_NOT_FOUND (Some (JObj [(''errors'', JList (map JStr missing))])), d)
         else (Committed, d\<lparr>vms := (vms d)(pm_item_hash pm \<mapsto> c),
                             vm_versions := (vm_versions d)(pm_item_hash pm \<mapsto> pm_item_hash pm)\<rparr>))"

text \<open>The parsed content of a message: executable (program or instance), or of another type.\<close>

datatype typed_content = Executable ExecutableContent | OtherContent json

text \<open>
  The collaborators of the pipeline, as parameters: the storage fetch of an item content
  (\<open>None\<close> when it is unavailable for now), the hash, the signature check, the per-type
  schema (\<open>None\<close> is a validation error), the JSON reading of a content, the handlers of
  the other message types, the clock and the retry parameters.
\<close>

record pipeline_services =
  fetch_content :: "PendingMessage \<Rightarrow> string option"
  content_sha256 :: "string \<Rightarrow> string"
  verify_signature :: "PendingMessage \<Rightarrow> string \<Rightarrow> bool"
  parse_content :: "string \<Rightarrow> string \<Rightarrow> typed_content option"
  content_json :: "string \<Rightarrow> json"
  other_handler :: "PendingMessage \<Rightarrow> json \<Rightarrow> database \<Rightarrow> handler_result \<times> database"
  pipeline_now :: datetime
  backoff_base :: real
  backoff_cap :: real
  max_retries :: nat

definition raw_message :: "PendingMessage \<Rightarrow> json" where
  "raw_message pm =
     JObj [(''item_hash'', JStr (pm_item_hash pm)), (''item_content'', json_of_opt_str (pm_item_content pm)),
           (''item_type'', JStr (pm_item_type pm)), (''chain'', JStr (pm_chain pm)),
           (''channel'', json_of_opt_str (pm_channel pm)), (''sender'', JStr (pm_sender pm)),
           (''type'', JStr (pm_type pm)), (''time'', JNum (pm_time pm)),
           (''signature'', json_of_opt_str (pm_signature pm))]"

definition delete_pending :: "PendingMessage \<Rightarrow> database \<Rightarrow> database" where
  "delete_pending pm d = d\<lparr>pending_messages := filter (\<lambda>p. pm_id p \<noteq> pm_id pm) (pending_messages d)\<rparr>"

definition set_status :: "PendingMessage \<Rightarrow> MessageStatus \<Rightarrow> database \<Rightarrow> database" where
  "set_status pm st d =
     d\<lparr>message_status := (message_status d)(pm_item_hash pm \<mapsto>
          (st, case message_status d (pm_item_hash pm) of
                 None \<Rightarrow> pm_reception_time pm
               | Some (_, t) \<Rightarrow> t))\<rparr>"

text \<open>Modelled from the spec: step 7, the outcome \<open>rejected\<close>.\<close>

definition reject_message :: "PendingMessage \<Rightarrow> ErrorCode \<Rightarrow> json option \<Rightarrow> database \<Rightarrow> database" where
  "reject_message pm code details d =
     delete_pending pm (set_status pm REJECTED
       (d\<lparr>rejected_messages := rejected_messages d @
             [\<lparr>rm_item_hash = Some (pm_item_hash pm), rm_message = raw_message pm,
               rm_error_code = code, rm_details = details, rm_traceback = None\<rparr>]\<rparr>))"

text \<open>Modelled from the spec: step 6, the outcome \<open>committed\<close>.\<close>

definition commit_message :: "pipeline_services \<Rightarrow> PendingMessage \<Rightarrow> string \<Rightarrow> database \<Rightarrow> database" where
  "commit_message svc pm cnt d =
     delete_pending pm (set_status pm PROCESSED
       (d\<lparr>message_rows := (message_rows d)(pm_item_hash pm \<mapsto>
             \<lparr>item_hash = pm_item_hash pm, msg_type = pm_type pm, chain = pm_chain pm,
              sender = pm_sender pm, signature = pm_signature pm, item_type = pm_item_type pm,
              item_content = pm_item_content pm, content = content_json svc cnt,
              time = pm_time pm, channel = pm_channel pm, size = int (length cnt)\<rparr>)\<rparr>))"

text \<open>
  Modelled from the spec: step 8, the outcome \<open>retry_later\<close>, with
  \<open>backoff k = min (base * 2 ^ k) cap\<close>; past \<open>max_retries\<close> the message is rejected.
\<close>

definition retry_message :: "pipeline_services \<Rightarrow> PendingMessage \<Rightarrow> database \<Rightarrow> database" where
  "retry_message svc pm d =
     (if pm_retries pm \<ge> max_retries svc then reject_message pm EXCEEDED_AMT_OF_RETRIES None d
      else d\<lparr>pending_messages :=
               map (\<lambda>p. if pm_id p = pm_id pm
                         then p\<lparr>pm_retries := Suc (pm_retries p),
                                pm_next_attempt := pipeline_now svc
                                  + min (backoff_base svc * 2 ^ Suc (pm_retries p)) (backoff_cap svc)\<rparr>
                         else p)
                   (pending_messages d)\<rparr>)"

text \<open>
  Modelled from the spec: the per-message algorithm of the pipeline, steps 1 to 8:
  skip a row that is gone, resolve and check the content, check the signature, parse the
  content, run the handler of the type, and apply its outcome.
\<close>

definition process_pending_message :: "pipeline_services \<Rightarrow> PendingMessage \<Rightarrow> database \<Rightarrow> database" where
  "process_pending_message svc pm d =
     (if pm_id pm \<notin> set (map pm_id (pending_messages d)) then d
      else
        (case (if pm_fetched pm then pm_item_content pm else fetch_content svc pm) of
           None \<Rightarrow> retry_message svc pm d
         | Some cnt \<Rightarrow>
             (if \<not> pm_fetched pm \<and> content_sha256 svc cnt \<noteq> pm_item_hash pm
                then reject_message pm CONTENT_HASH_MISMATCH None d
              else if pm_check_message pm \<and> \<not> verify_signature svc pm cnt
                then reject_message pm INVALID_SIGNATURE None d
              else
                (case parse_content svc (pm_type pm) cnt of
                   None \<Rightarrow> reject_message pm CONTENT_VALIDATION_FAILED None d
                 | Some parsed \<Rightarrow>
                     (case (case parsed of
                              Executable c \<Rightarrow> vm_handler pm c d
                            | OtherContent j \<Rightarrow> other_handler svc pm j d) of
                        (Committed, d') \<Rightarrow> commit_message svc pm cnt d'
                      | (Rejected code details, d') \<Rightarrow> reject_message pm code details d'
                      | (RetryLater details, d') \<Rightarrow> retry_message svc pm d')))))"

text \<open>Insertion sort of the pending rows by retries, then time, both ascending.\<close>

fun insert_pending :: "PendingMessage \<Rightarrow> PendingMessage list \<Rightarrow> PendingMessage list" where
  "insert_pending p [] = [p]"
| "insert_pending p (q # qs) =
     (if pm_retries p < pm_retries q \<or> (pm_retries p = pm_retries q \<and> pm_time p \<le> pm_time q)
      then p # q # qs else q # insert_pending p qs)"

definition scan_order :: "PendingMessage list \<Rightarrow> PendingMessage list" where
  "scan_order rows = foldr insert_pending rows []"

text \<open>
  Modelled from the spec: one pass of the pipeline applies the per-message algorithm to
  the rows pending at its start, in scan order.
\<close>

definition pipeline_pass :: "pipeline_services \<Rightarrow> database \<Rightarrow> database" where
  "pipeline_pass svc d = fold (process_pending_message svc) (scan_order (pending_messages d)) d"

section \<open>Concrete inputs\<close>

text \<open>
  Values on which the definitions above are evaluated below. \<open>parse_payload_strict\<close>
  accepts a dict whose four fields have exactly the declared types, under the alias or
  the field name; the two string functions stand for the serialiser and the hash.
\<close>

definition field_or :: "(string \<times> json) list \<Rightarrow> string \<Rightarrow> string \<Rightarrow> json option" where
  "field_or kvs alias name = (case map_of kvs alias of Some v \<Rightarrow> Some v | None \<Rightarrow> map_of kvs name)"

definition parse_payload_strict :: "json \<Rightarrow> MessageEventPayload option" where
  "parse_payload_strict j =
     (case j of
        JObj kvs \<Rightarrow>
          (case (map_of kvs ''timestamp'', map_of kvs ''addr'',
                 field_or kvs ''msgtype'' ''message_type'',
                 field_or kvs ''msgcontent'' ''message_content'') of
             (Some (JNum t), Some (JStr a), Some (JStr mt), Some (JStr mc)) \<Rightarrow>
               Some \<lparr>payload_timestamp = t, addr = a, message_type = mt, message_content = mc\<rparr>
           | _ \<Rightarrow> None)
      | _ \<Rightarrow> None)"

text \<open>The shape of a version 0 IPFS content identifier, the hashes accepted in the examples.\<close>

definition example_valid_hash :: "string \<Rightarrow> bool" where
  "example_valid_hash h = (take 2 h = ''Qm'' \<and> length h = 46)"

definition example_services :: services where
  "example_services =
     \<lparr>ipfs_enabled = True,
      get_json = (\<lambda>h. Inl ContentCurrentlyUnavailable),
      pin_hash = (\<lambda>h. Pinned),
      utc_now = 1700000000,
      parse_obj = parse_payload_strict,
      store_content_json = (\<lambda>c. if example_valid_hash (sc_item_hash c)
                                then Some (''{address: '' @ sc_address c @ '', item_type: ''
                                           @ sc_item_type c @ '', item_hash: '' @ sc_item_hash c
                                           @ ''}'')
                                else None),
      get_sha256 = (\<lambda>s. ''sha256('' @ s @ '')''),
      add_pending_message = (\<lambda>message_dict reception_time tx_hash check_message d. d)\<rparr>"

definition empty_database :: database where
  "empty_database =
     \<lparr>chain_txs = Map.empty, pending_txs = Map.empty, stored_files = Map.empty,
      tx_file_pins = [], pending_messages = [], message_status = Map.empty,
      message_confirmations = [], rejected_messages = [], message_rows = Map.empty,
      file_pins = Map.empty, file_tags = Map.empty, vms = Map.empty, vm_versions = Map.empty\<rparr>"

definition example_world :: world where
  "example_world = \<lparr>seen_ids = Some {}, db = empty_database, fetches = []\<rparr>"

text \<open>A smart-contract event transaction on chain \<open>c\<close> with message type \<open>msgtype\<close>.\<close>

definition example_event_tx :: "string \<Rightarrow> string \<Rightarrow> ChainTx" where
  "example_event_tx c msgtype =
     \<lparr>tx_hash = ''oorMNgusX6'', tx_chain = c, tx_height = 2000000, tx_datetime = 1668611900,
      tx_protocol = SMART_CONTRACT, tx_protocol_version = 1,
      tx_content = JObj [(''timestamp'', JNum 1668611900), (''addr'', JStr ''KT1BfL57oZ''),
                         (''msgtype'', JStr msgtype), (''msgcontent'', JStr ''QmaMLRsvmD'')]\<rparr>"

text \<open>A \<open>STORE_IPFS\<close> event on chain \<open>c\<close> whose message content is a content identifier.\<close>

definition example_store_tx :: "string \<Rightarrow> ChainTx" where
  "example_store_tx c =
     \<lparr>tx_hash = ''oorMNgusX6'', tx_chain = c, tx_height = 2000000, tx_datetime = 1668611900,
      tx_protocol = SMART_CONTRACT, tx_protocol_version = 1,
      tx_content = JObj [(''timestamp'', JNum 1668611900), (''addr'', JStr ''KT1BfL57oZ''),
                         (''msgtype'', JStr ''STORE_IPFS''),
                         (''msgcontent'', JStr ''QmaMLRsvmDRCezZe2iebcKWtEzKNjBaQfwcu7mcpdm8eY2'')]\<rparr>"


text \<open>A processed message, a pending transaction carrying it inline, and the world holding both pending transactions.\<close>

definition example_message :: MessageDb where
  "example_message =
     \<lparr>item_hash = ''4bbcfe7c4775f9e1'', msg_type = ''POST'', chain = ''ETH'',
      sender = ''0x696879aE4F6d'', signature = Some ''0x1b2c'', item_type = ''inline'',
      item_content = Some ''{body}'', content = JObj [(''address'', JStr ''0x696879aE4F6d'')],
      time = 1652126646, channel = Some ''TEST'', size = 6\<rparr>"




text \<open>
  A pending-message collection of 100002 documents: two of the same message at heights 7
  and 3, and a backlog of other messages without height; and a \<open>seen_ids\<close> dictionary
  that recorded the first message at height 5.
\<close>

definition example_doc :: "nat \<Rightarrow> string \<Rightarrow> int option \<Rightarrow> pending_doc" where
  "example_doc i ih height =
     \<lparr>doc_id = i,
      doc_message = JObj [(''item_hash'', JStr ih), (''sender'', JStr ''0x696879aE4F6d''),
                          (''type'', JStr ''POST'')],
      source_chain_name = Some ''ETH'', source_tx_hash = Some ''0xabc1'',
      source_height = height, source_check_message = None\<rparr>"

definition example_backlog :: "pending_doc list" where
  "example_backlog = map (\<lambda>i. example_doc i ''d281eb8a'' None) [2..<100002]"

definition example_collection :: "pending_doc list" where
  "example_collection =
     example_doc 0 ''4bbcfe7c'' (Some 7) # example_doc 1 ''4bbcfe7c'' (Some 3) # example_backlog"

definition example_seen :: seen_heights where
  "example_seen = [((''4bbcfe7c'', ''0x696879aE4F6d'', Some ''ETH''), 5)]"

text \<open>A parser of pending messages that asks for a string item hash, and an \<open>incoming\<close> that handles every message.\<close>

definition example_parse_message :: "json \<Rightarrow> error + string" where
  "example_parse_message j =
     (case json_get ''item_hash'' j of Some (JStr h) \<Rightarrow> Inr h | _ \<Rightarrow> Inl InvalidMessageError)"

definition example_incoming ::
  "string \<Rightarrow> string option \<Rightarrow> string option \<Rightarrow> int option \<Rightarrow> seen_heights \<Rightarrow> bool \<Rightarrow> nat \<Rightarrow>
     (error + IncomingStatus \<times> DbBulkOperation list) \<times> seen_heights" where
  "example_incoming m chain_name txh height seen check_message existing_id =
     (Inr (MESSAGE_HANDLED, [\<lparr>collection = ''Message'', operation = OtherOperation ''UpdateOne''\<rparr>]),
      seen)"

definition example_invalid_doc :: pending_doc where
  "example_invalid_doc =
     \<lparr>doc_id = 42, doc_message = JObj [(''sender'', JStr ''0x696879aE4F6d'')],
      source_chain_name = None, source_tx_hash = None, source_height = None,
      source_check_message = None\<rparr>"

text \<open>Admission rules, a message dict in wire form and an empty publisher state.\<close>

definition example_rules :: admission_rules where
  "example_rules =
     \<lparr>valid_item_hash = (\<lambda>h. h \<noteq> []),
      valid_type = (\<lambda>t. t \<in> {''AGGREGATE'', ''POST'', ''STORE'', ''PROGRAM'', ''INSTANCE'', ''FORGET''}),
      valid_chain = (\<lambda>c. c \<in> {''ETH'', ''TEZOS'', ''SOL''})\<rparr>"

definition example_message_dict :: json where
  "example_message_dict =
     JObj [(''item_hash'', JStr ''4bbcfe7c4775f9e1''), (''type'', JStr ''POST''),
           (''chain'', JStr ''ETH''), (''sender'', JStr ''0x696879aE4F6d''),
           (''signature'', JStr ''0x1b2c''), (''item_type'', JStr ''inline''),
           (''item_content'', JStr ''{body}''), (''time'', JNum 1652126646),
           (''channel'', JStr ''TEST'')]"

definition example_candidate :: candidate where
  "example_candidate =
     \<lparr>c_item_hash = ''4bbcfe7c4775f9e1'', c_sender = ''0x696879aE4F6d'', c_chain = ''ETH'',
      c_type = ''POST'', c_signature = Some ''0x1b2c'', c_item_type = ''inline'',
      c_item_content = Some ''{body}'', c_time = 1652126646, c_channel = Some ''TEST''\<rparr>"

definition example_publisher_state :: publisher_state where
  "example_publisher_state = \<lparr>p_db = empty_database, published = []\<rparr>"

text \<open>
  A pending instance message with a parent of the root file system and one immutable
  volume, in a database that holds no stored file, and the services of a pipeline whose
  schema reads every instance content as this one.
\<close>

definition example_instance :: ExecutableContent where
  "example_instance =
     InstanceContent ''0x9319Ad3B7A8E''
       (Some \<lparr>vr_ref = ''549ec451d9b0'', vr_use_latest = True\<rparr>)
       [ImmutableVolume \<lparr>vr_ref = ''5f31b0706f59'', vr_use_latest = False\<rparr>,
        EphemeralVolume 5, PersistentVolume ''sqlite-data'' 10,
        PersistentVolume ''statistics'' 10, PersistentVolume ''raw-data'' 10]"

definition example_pending_instance :: PendingMessage where
  "example_pending_instance =
     \<lparr>pm_id = 1, pm_item_hash = ''734a1287a2b7'', pm_sender = ''0x9319Ad3B7A8E'',
      pm_chain = ''ETH'', pm_type = ''INSTANCE'', pm_signature = None,
      pm_item_type = ''inline'', pm_item_content = Some ''{instance}'',
      pm_time = 1619017773, pm_channel = None, pm_reception_time = 1619017774,
      pm_retries = 0, pm_next_attempt = 1672531200, pm_fetched = True,
      pm_check_message = False, pm_origin = ''p2p'', pm_source_tx_hash = None\<rparr>"

definition example_pipeline_services :: pipeline_services where
  "example_pipeline_services =
     \<lparr>fetch_content = (\<lambda>pm. None),
      content_sha256 = (\<lambda>s. ''sha256('' @ s @ '')''),
      verify_signature = (\<lambda>pm cnt. False),
      parse_content = (\<lambda>ty cnt. if ty = ''INSTANCE'' then Some (Executable example_instance)
                                  else None),
      content_json = (\<lambda>cnt. JStr cnt),
      other_handler = (\<lambda>pm j d. (Committed, d)),
      pipeline_now = 1700000000,
      backoff_base = 1, backoff_cap = 3600, max_retries = 10\<rparr>"

definition example_instance_db :: database where
  "example_instance_db =
     empty_database\<lparr>pending_messages := [example_pending_instance],
                     message_status := [''734a1287a2b7'' \<mapsto> (PENDING, 1619017774)]\<rparr>"

section \<open>Properties of the outgoing chain data\<close>

text \<open>
  C6. For every message list and threshold \<open>T\<close>, \<open>get_chaindata\<close> builds the on-chain
  envelope (protocol \<open>aleph-sync\<close>, version 1, the message dicts under
  \<open>content.messages\<close>). Exactly when the serialised size of that envelope exceeds \<open>T\<close>
  the result is the off-chain envelope whose content is the hash the storage service
  answered for the uploaded envelope, and exactly otherwise it is the inline envelope
  itself; the envelope is uploaded in the first case and nothing is uploaded in the second.
\<close>

theorem get_chaindata_threshold:
  "(let env = on_chain_envelope (map message_to_dict messages);
        res = get_chaindata dumps_len add_json messages T
    in env = JObj [(''protocol'', JStr ''aleph-sync''), (''version'', JNum 1),
                   (''content'', JObj [(''messages'', JList (map message_to_dict messages))])]
     \<and> (T < int (dumps_len env)) =
         (fst res = JObj [(''protocol'', JStr ''aleph-offchain-sync''), (''version'', JNum 1),
                          (''content'', JStr (add_json env))])
     \<and> (\<not> T < int (dumps_len env)) = (fst res = env)
     \<and> snd res = (if T < int (dumps_len env) then [env] else []))"
  by (simp add: get_chaindata_def on_chain_envelope_def off_chain_envelope_def Let_def)

section \<open>Properties of the smart-contract protocol\<close>

lemma parse_example_event:
  "parse_obj example_services (tx_content (example_event_tx c mt)) =
     Some \<lparr>payload_timestamp = 1668611900, addr = ''KT1BfL57oZ'', message_type = mt,
           message_content = ''QmaMLRsvmD''\<rparr>"
  by (simp add: example_services_def example_event_tx_def parse_payload_strict_def field_or_def)

text \<open>
  C2, as the code has it. For every transaction with protocol \<open>smart_contract\<close>, version 1,
  whose content parses as a message event payload with a message type other than
  \<open>STORE_IPFS\<close>, \<open>get_tx_messages\<close> raises \<^verbatim>\<open>ValueError\<close>, which is not an
  \<^verbatim>\<open>AlephStorageException\<close> (the family of \<^verbatim>\<open>InvalidContent\<close>), and changes nothing.
\<close>

theorem smart_contract_other_msgtype:
  assumes "tx_protocol tx = SMART_CONTRACT" and "tx_protocol_version tx = 1"
    and "parse_obj svc (tx_content tx) = Some payload"
    and "message_type payload \<noteq> ''STORE_IPFS''"
  shows "get_tx_messages svc tx w = (Inl ValueError, w) \<and> \<not> is_AlephStorageException ValueError"
  using assms by (simp add: get_tx_messages_def get_tx_messages_smart_contract_protocol_def)

theorem smart_contract_other_msgtype_witness:
  "get_tx_messages example_services (example_event_tx ''TEZOS'' ''STORE_IPFS_2'') example_world
     = (Inl ValueError, example_world)"
  using smart_contract_other_msgtype [of "example_event_tx ''TEZOS'' ''STORE_IPFS_2''"
      example_services _ example_world, OF _ _ parse_example_event]
  by (simp add: example_event_tx_def)

text \<open>
  The claim as the specification words it fails: a Tezos event of message type
  \<open>AGGREGATE\<close>, whose content parses, does not end in \<^verbatim>\<open>InvalidContent\<close>.
\<close>

theorem smart_contract_other_msgtype_counterexample:
  "tx_protocol (example_event_tx ''TEZOS'' ''AGGREGATE'') = SMART_CONTRACT
   \<and> tx_protocol_version (example_event_tx ''TEZOS'' ''AGGREGATE'') = 1
   \<and> parse_obj example_services (tx_content (example_event_tx ''TEZOS'' ''AGGREGATE''))
       = Some \<lparr>payload_timestamp = 1668611900, addr = ''KT1BfL57oZ'',
               message_type = ''AGGREGATE'', message_content = ''QmaMLRsvmD''\<rparr>
   \<and> fst (get_tx_messages example_services (example_event_tx ''TEZOS'' ''AGGREGATE'') example_world)
       \<noteq> Inl InvalidContent"
  by (simp add: get_tx_messages_def get_tx_messages_smart_contract_protocol_def
        example_services_def example_event_tx_def parse_payload_strict_def field_or_def)

lemma parse_example_store:
  "parse_obj example_services (tx_content (example_store_tx c)) =
     Some \<lparr>payload_timestamp = 1668611900, addr = ''KT1BfL57oZ'', message_type = ''STORE_IPFS'',
           message_content = ''QmaMLRsvmDRCezZe2iebcKWtEzKNjBaQfwcu7mcpdm8eY2''\<rparr>"
  by (simp add: example_services_def example_store_tx_def parse_payload_strict_def field_or_def)

lemma example_store_content:
  "store_content_json example_services
     \<lparr>sc_address = ''KT1BfL57oZ'', sc_time = 1668611900, sc_item_type = ''ipfs'',
      sc_item_hash = ''QmaMLRsvmDRCezZe2iebcKWtEzKNjBaQfwcu7mcpdm8eY2''\<rparr> =
     Some ''{address: KT1BfL57oZ, item_type: ipfs, item_hash: QmaMLRsvmDRCezZe2iebcKWtEzKNjBaQfwcu7mcpdm8eY2}''"
  by (simp add: example_services_def example_valid_hash_def)

text \<open>
  C3, as the code has it. For every transaction with protocol \<open>smart_contract\<close>, version 1,
  whose content parses with message type \<open>STORE_IPFS\<close>: when \<^verbatim>\<open>StoreContent\<close> accepts
  the address, timestamp and message content, \<open>get_tx_messages\<close> returns exactly one
  message dict, with item type \<open>inline\<close>, null signature, the payload's address as sender,
  the epoch of the transaction's time, the sha256 of the synthesised item content as item
  hash, and the chain \<open>TEZOS\<close>, whatever the chain of the transaction; when
  \<^verbatim>\<open>StoreContent\<close> rejects them, the \<^verbatim>\<open>ValidationError\<close> leaves
  \<open>get_tx_messages\<close> and nothing is returned. Nothing else changes in either case.
\<close>

theorem smart_contract_store_ipfs:
  assumes "tx_protocol tx = SMART_CONTRACT" and "tx_protocol_version tx = 1"
    and "parse_obj svc (tx_content tx) = Some payload"
    and "message_type payload = ''STORE_IPFS''"
  shows "get_tx_messages svc tx w =
     (case store_content_json svc
             \<lparr>sc_address = addr payload, sc_time = payload_timestamp payload,
              sc_item_type = ''ipfs'', sc_item_hash = message_content payload\<rparr> of
        None \<Rightarrow> (Inl ValidationError, w)
      | Some serialised \<Rightarrow>
          (Inr (JList
             [JObj [(''item_hash'', JStr (get_sha256 svc serialised)),
                    (''sender'', JStr (addr payload)),
                    (''chain'', JStr ''TEZOS''),
                    (''signature'', JNull),
                    (''type'', JStr ''STORE''),
                    (''item_content'', JStr serialised),
                    (''item_type'', JStr ''inline''),
                    (''time'', JNum (timestamp (tx_datetime tx)))]]), w))"
  using assms
  by (simp add: get_tx_messages_def get_tx_messages_smart_contract_protocol_def Let_def
      split: option.splits)

theorem smart_contract_store_ipfs_witness:
  "get_tx_messages example_services (example_store_tx ''TEZOS'') example_world =
     (Inr (JList
        [JObj [(''item_hash'', JStr ''sha256({address: KT1BfL57oZ, item_type: ipfs, item_hash: QmaMLRsvmDRCezZe2iebcKWtEzKNjBaQfwcu7mcpdm8eY2})''),
               (''sender'', JStr ''KT1BfL57oZ''),
               (''chain'', JStr ''TEZOS''),
               (''signature'', JNull),
               (''type'', JStr ''STORE''),
               (''item_content'', JStr ''{address: KT1BfL57oZ, item_type: ipfs, item_hash: QmaMLRsvmDRCezZe2iebcKWtEzKNjBaQfwcu7mcpdm8eY2}''),
               (''item_type'', JStr ''inline''),
               (''time'', JNum 1668611900)]]), example_world)
   \<and> get_tx_messages example_services (example_event_tx ''TEZOS'' ''STORE_IPFS'') example_world =
       (Inl ValidationError, example_world)"
proof -
  have short: "store_content_json example_services
     \<lparr>sc_address = ''KT1BfL57oZ'', sc_time = 1668611900, sc_item_type = ''ipfs'',
      sc_item_hash = ''QmaMLRsvmD''\<rparr> = None"
    by (simp add: example_services_def example_valid_hash_def)
  have sha: "get_sha256 example_services = (\<lambda>s. ''sha256('' @ s @ '')'')"
    by (simp add: example_services_def)
  show ?thesis
    using smart_contract_store_ipfs [of "example_store_tx ''TEZOS''" example_services _
            example_world, OF _ _ parse_example_store]
      smart_contract_store_ipfs [of "example_event_tx ''TEZOS'' ''STORE_IPFS''" example_services _
            example_world, OF _ _ parse_example_event]
    by (simp add: example_store_content short sha)
       (simp add: example_store_tx_def example_event_tx_def timestamp_def)
qed

text \<open>
  The claim as the specification words it fails on the chain: a \<open>STORE_IPFS\<close> event with a
  well-formed content identifier, recorded for a transaction of chain \<open>ETH\<close>, yields
  one message, of chain \<open>TEZOS\<close>.
\<close>

theorem smart_contract_chain_counterexample:
  "tx_protocol (example_store_tx ''ETH'') = SMART_CONTRACT
   \<and> tx_protocol_version (example_store_tx ''ETH'') = 1
   \<and> tx_chain (example_store_tx ''ETH'') = ''ETH''
   \<and> parse_obj example_services (tx_content (example_store_tx ''ETH''))
       = Some \<lparr>payload_timestamp = 1668611900, addr = ''KT1BfL57oZ'',
               message_type = ''STORE_IPFS'',
               message_content = ''QmaMLRsvmDRCezZe2iebcKWtEzKNjBaQfwcu7mcpdm8eY2''\<rparr>
   \<and> (case fst (get_tx_messages example_services (example_store_tx ''ETH'') example_world) of
         Inr (JList [m]) \<Rightarrow> json_get ''chain'' m = Some (JStr ''TEZOS'')
                           \<and> json_get ''chain'' m
                               \<noteq> Some (JStr (tx_chain (example_store_tx ''ETH'')))
       | _ \<Rightarrow> False)"
proof -
  have "fst (get_tx_messages example_services (example_store_tx ''ETH'') example_world) =
          Inr (JList
            [JObj [(''item_hash'', JStr (get_sha256 example_services
                      ''{address: KT1BfL57oZ, item_type: ipfs, item_hash: QmaMLRsvmDRCezZe2iebcKWtEzKNjBaQfwcu7mcpdm8eY2}'')),
                   (''sender'', JStr ''KT1BfL57oZ''),
                   (''chain'', JStr ''TEZOS''),
                   (''signature'', JNull),
                   (''type'', JStr ''STORE''),
                   (''item_content'', JStr ''{address: KT1BfL57oZ, item_type: ipfs, item_hash: QmaMLRsvmDRCezZe2iebcKWtEzKNjBaQfwcu7mcpdm8eY2}''),
                   (''item_type'', JStr ''inline''),
                   (''time'', JNum (timestamp (tx_datetime (example_store_tx ''ETH''))))]])"
    by (simp add: get_tx_messages_def get_tx_messages_smart_contract_protocol_def
          parse_example_store example_store_content Let_def)
       (simp add: example_store_tx_def)
  then show ?thesis
    by (simp add: parse_example_store) (simp add: example_store_tx_def)
qed

section \<open>Properties of the off-chain protocol\<close>



section \<open>Properties of the pending-tx processor\<close>

















section \<open>Properties of the envelope round trip\<close>

lemma decode_encoded_on_chain:
  assumes "\<not> T < int (dumps_len (on_chain_envelope (map message_to_dict msgs)))"
  shows "decode_encoded svc dumps_len add_json msgs T h c height t w
           = Some (Inr (JList (map message_to_dict msgs)))"
  using assms
  by (simp add: decode_encoded_def get_chaindata_def Let_def on_chain_envelope_def
        tx_of_envelope_def get_tx_messages_def get_tx_messages_on_chain_protocol_def)

lemma decode_encoded_off_chain:
  assumes "T < int (dumps_len (on_chain_envelope (map message_to_dict msgs)))"
    and "seen_ids w = None \<or> seen_ids w = Some {}"
  shows "decode_encoded svc dumps_len add_json msgs T h c height t w
           = Some (Inl (KeyError ''messages''))"
  using assms
  by (auto simp add: decode_encoded_def get_chaindata_def Let_def on_chain_envelope_def
        off_chain_envelope_def stored_json_def fetch_sync_file_def
        tx_of_envelope_def get_tx_messages_def get_tx_messages_off_chain_protocol_def)

text \<open>
  C7, at a failing input. One message is encoded with threshold 50, below the size of its
  on-chain envelope (taken as 400 characters), so that the envelope is uploaded and the
  off-chain envelope returned. The document stored under the hash is the whole on-chain
  envelope, with the messages under \<open>content.messages\<close>; the decoder looks for
  \<open>messages\<close> at the top of the fetched document and raises \<^verbatim>\<open>KeyError\<close>. With
  threshold 100000 the same message comes back through the on-chain path.
\<close>

theorem off_chain_round_trip_fails:
  "decode_encoded example_services (\<lambda>v. 400) (\<lambda>v. ''QmBundle1'') [example_message] 50
       ''0xabc1'' ''ETH'' 1500 1668611900 example_world
     = Some (Inl (KeyError ''messages''))
   \<and> decode_encoded example_services (\<lambda>v. 400) (\<lambda>v. ''QmBundle1'') [example_message] 100000
       ''0xabc1'' ''ETH'' 1500 1668611900 example_world
     = Some (Inr (JList [message_to_dict example_message]))"
  by (simp add: decode_encoded_off_chain decode_encoded_on_chain example_world_def)

section \<open>Properties of the pending-message job\<close>

text \<open>
  C10. When the stored message of a pending document does not parse
  (\<^verbatim>\<open>InvalidMessageError\<close>), \<open>handle_pending_message\<close> returns exactly one operation,
  the deletion of that document from the pending collection: \<open>incoming\<close> is not
  consulted, \<open>seen_ids\<close> is unchanged, and no operation on any other collection (no
  rejection, no status) is returned.
\<close>

theorem handle_pending_message_invalid:
  assumes "parse_message (doc_message pending) = Inl InvalidMessageError"
  shows "handle_pending_message parse_message incoming pending seen =
           (Inr [\<lparr>collection = ''PendingMessage'', operation = DeleteOne (doc_id pending)\<rparr>], seen)"
  using assms by (simp add: handle_pending_message_def)

theorem handle_pending_message_invalid_witness:
  "handle_pending_message example_parse_message example_incoming example_invalid_doc example_seen =
     (Inr [\<lparr>collection = ''PendingMessage'', operation = DeleteOne 42\<rparr>], example_seen)"
  using handle_pending_message_invalid [of example_parse_message example_invalid_doc
          example_incoming example_seen]
  by (simp add: example_parse_message_def example_invalid_doc_def)

lemma bulk_write_clean_actions:
  "bulk_write (clean_actions seen) coll =
     filter (\<lambda>d. \<forall>((ih, s, c), h) \<in> set seen. \<not> matches_clean_filter ih s c h d) coll"
proof (induction seen arbitrary: coll)
  case Nil
  then show ?case by (simp add: clean_actions_def)
next
  case (Cons a seen)
  obtain ih s c h where a: "a = ((ih, s, c), h)" by (cases a) auto
  have "bulk_write (clean_actions (a # seen)) coll =
          bulk_write (clean_actions seen) (filter (\<lambda>d. \<not> matches_clean_filter ih s c h d) coll)"
    by (simp add: clean_actions_def a)
  also have "\<dots> = filter (\<lambda>d. \<forall>((ih, s, c), h) \<in> set seen. \<not> matches_clean_filter ih s c h d)
                      (filter (\<lambda>d. \<not> matches_clean_filter ih s c h d) coll)"
    using Cons.IH unfolding clean_actions_def by simp
  finally show ?case by (simp add: a conj_commute)
qed

lemma length_example_backlog: "length example_backlog = 100000"
  unfolding example_backlog_def by (simp only: length_map length_upt)

lemma length_example_collection: "length example_collection = 100002"
  by (simp add: example_collection_def length_example_backlog)

lemma example_backlog_height: "d \<in> set example_backlog \<Longrightarrow> source_height d = None"
  unfolding example_backlog_def by (auto simp only: set_map example_doc_def pending_doc.simps)

lemma filter_example_backlog:
  "filter (\<lambda>d. \<not> matches_clean_filter ih s c h d) example_backlog = example_backlog"
  by (rule filter_True) (simp add: matches_clean_filter_def example_backlog_height)

lemma clean_example_collection:
  "clean_pending_messages example_seen example_collection =
     example_doc 1 ''4bbcfe7c'' (Some 3) # example_backlog"
  by (simp add: clean_pending_messages_def length_example_collection clean_actions_def
        example_seen_def)
     (simp add: example_collection_def filter_example_backlog,
      simp add: matches_clean_filter_def example_doc_def)

text \<open>
  C1, as the code has it. Whenever the pending collection counts more than 100000
  documents, the clean-up deletes exactly the documents that, for some entry of
  \<open>seen_ids\<close>, have the item hash, sender and chain name of the entry and a source height
  strictly greater than the height recorded in the entry. Documents at or below the
  recorded height, documents without height and documents of other keys are kept, in
  their order.
\<close>

theorem clean_deletes_greater_heights:
  assumes "length coll > 100000"
  shows "clean_pending_messages seen coll =
     filter (\<lambda>d. \<not> (\<exists>((ih, s, c), h) \<in> set seen.
                        json_get ''item_hash'' (doc_message d) = Some (JStr ih)
                        \<and> json_get ''sender'' (doc_message d) = Some (JStr s)
                        \<and> source_chain_name d = c
                        \<and> (\<exists>x. source_height d = Some x \<and> h < x))) coll"
proof -
  have "\<And>d. (\<forall>((ih, s, c), h) \<in> set seen. \<not> matches_clean_filter ih s c h d) =
         (\<not> (\<exists>((ih, s, c), h) \<in> set seen.
                        json_get ''item_hash'' (doc_message d) = Some (JStr ih)
                        \<and> json_get ''sender'' (doc_message d) = Some (JStr s)
                        \<and> source_chain_name d = c
                        \<and> (\<exists>x. source_height d = Some x \<and> h < x)))"
    by (auto simp: matches_clean_filter_def split: option.splits)
  with assms show ?thesis
    by (simp add: clean_pending_messages_def bulk_write_clean_actions)
qed

theorem clean_deletes_greater_heights_witness:
  "length example_collection > 100000
   \<and> clean_pending_messages example_seen example_collection =
       example_doc 1 ''4bbcfe7c'' (Some 3) # example_backlog"
  using clean_deletes_greater_heights [of example_collection example_seen]
  by (simp add: clean_example_collection length_example_collection)

text \<open>
  The claim as the specification words it fails: in a collection of 100002 documents, of
  the two documents of one key the clean-up deletes the one at height 7, the highest, and
  keeps the one at height 3.
\<close>

theorem clean_deletes_highest_counterexample:
  "length example_collection > 100000
   \<and> source_height (example_doc 0 ''4bbcfe7c'' (Some 7)) = Some 7
   \<and> source_height (example_doc 1 ''4bbcfe7c'' (Some 3)) = Some 3
   \<and> example_doc 0 ''4bbcfe7c'' (Some 7) \<in> set example_collection
   \<and> example_doc 1 ''4bbcfe7c'' (Some 3) \<in> set example_collection
   \<and> example_doc 0 ''4bbcfe7c'' (Some 7) \<notin> set (clean_pending_messages example_seen example_collection)
   \<and> example_doc 1 ''4bbcfe7c'' (Some 3) \<in> set (clean_pending_messages example_seen example_collection)"
proof -
  have "example_doc 0 ''4bbcfe7c'' (Some 7) \<notin> set example_backlog"
    using example_backlog_height [of "example_doc 0 ''4bbcfe7c'' (Some 7)"]
    by (auto simp: example_doc_def)
  moreover have "example_doc 0 ''4bbcfe7c'' (Some 7) \<noteq> example_doc 1 ''4bbcfe7c'' (Some 3)"
    by (simp add: example_doc_def)
  ultimately show ?thesis
    by (simp add: clean_example_collection length_example_collection)
       (simp add: example_collection_def example_doc_def)
qed

section \<open>Properties of the admission gate\<close>

lemma source_key_chain_txs:
  "chain_txs d' = chain_txs d \<Longrightarrow> source_key d' ih s txh = source_key d ih s txh"
  by (cases txh) (simp_all add: source_key_def)

lemma logical_key_of_chain_txs:
  "chain_txs d' = chain_txs d \<Longrightarrow> logical_key_of d' p = logical_key_of d p"
  unfolding logical_key_of_def by (rule source_key_chain_txs)

lemma ensure_confirmation_pending:
  "pending_messages (ensure_confirmation ih txh d) = pending_messages d"
  by (cases txh) (simp_all add: ensure_confirmation_def)

lemma ensure_confirmation_chain_txs:
  "chain_txs (ensure_confirmation ih txh d) = chain_txs d"
  by (cases txh) (simp_all add: ensure_confirmation_def)

lemma insert_pending_message_rows:
  "pending_messages (insert_pending_message new d) = pending_messages d @ [new]"
  "chain_txs (insert_pending_message new d) = chain_txs d"
  by (simp_all add: insert_pending_message_def)

lemma new_pending_message_key:
  "logical_key_of d (new_pending_message c i t now origin txh chk)
     = source_key d (c_item_hash c) (c_sender c) txh"
  by (simp add: logical_key_of_def new_pending_message_def)

lemma add_pending_message_existing:
  assumes "parse_candidate rules M = Some c"
    and "find (\<lambda>p. logical_key_of (p_db st) p = source_key (p_db st) (c_item_hash c) (c_sender c) txh)
           (pending_messages (p_db st)) = Some e"
  shows "fst (add_pending_message_spec rules now M t origin txh chk st) = Some e"
    and "pending_messages (p_db (snd (add_pending_message_spec rules now M t origin txh chk st)))
           = pending_messages (p_db st)"
    and "chain_txs (p_db (snd (add_pending_message_spec rules now M t origin txh chk st)))
           = chain_txs (p_db st)"
  unfolding add_pending_message_spec_def Let_def
  by (simp_all only: assms option.case prod.case fst_conv snd_conv)
     (simp_all add: ensure_confirmation_pending ensure_confirmation_chain_txs)

lemma add_pending_message_new:
  assumes "parse_candidate rules M = Some c"
    and "find (\<lambda>p. logical_key_of (p_db st) p = source_key (p_db st) (c_item_hash c) (c_sender c) txh)
           (pending_messages (p_db st)) = None"
  shows "fst (add_pending_message_spec rules now M t origin txh chk st)
           = Some (new_pending_message c (fresh_id (pending_messages (p_db st))) t now origin txh chk)"
    and "pending_messages (p_db (snd (add_pending_message_spec rules now M t origin txh chk st)))
           = pending_messages (p_db st)
               @ [new_pending_message c (fresh_id (pending_messages (p_db st))) t now origin txh chk]"
    and "chain_txs (p_db (snd (add_pending_message_spec rules now M t origin txh chk st)))
           = chain_txs (p_db st)"
  unfolding add_pending_message_spec_def Let_def
  by (simp_all only: assms option.case prod.case fst_conv snd_conv)
     (simp_all add: ensure_confirmation_pending ensure_confirmation_chain_txs
        insert_pending_message_rows)

lemma filter_le_one_find:
  assumes "length (filter P xs) \<le> 1" and "find P xs = Some e"
  shows "length (filter P xs) = 1"
proof -
  from assms(2) have "e \<in> set xs" "P e" by (auto simp: find_Some_iff)
  then have "filter P xs \<noteq> []" by (auto simp: filter_empty_conv)
  with assms(1) show ?thesis by (cases "filter P xs") auto
qed

lemma find_None_filter: "find P xs = None \<Longrightarrow> filter P xs = []"
  by (auto simp: find_None_iff filter_empty_conv)

lemma find_append_new: "find P xs = None \<Longrightarrow> P x \<Longrightarrow> find P (xs @ [x]) = Some x"
  by (induction xs) (auto split: if_splits)

text \<open>
  C5. For every well-formed message dict \<open>M\<close> and every state in which at most one
  pending row has the logical key of \<open>M\<close>: two calls of \<open>add_pending_message\<close> with
  \<open>M\<close>, the same origin and source, and any two reception times and clock readings,
  return the same row, hence the reception time returned by the first call, and leave
  exactly one pending row with that logical key.
\<close>

theorem add_pending_message_twice:
  assumes wf: "parse_candidate rules M = Some c"
    and uniq: "length (filter (\<lambda>p. logical_key_of (p_db st) p
                                  = source_key (p_db st) (c_item_hash c) (c_sender c) txh)
                         (pending_messages (p_db st))) \<le> 1"
  shows "case add_pending_message_spec rules now_a M t_a origin txh chk st of
           (r1, st1) \<Rightarrow>
             (case add_pending_message_spec rules now_b M t_b origin txh chk st1 of
                (r2, st2) \<Rightarrow>
                  (\<exists>p1. r1 = Some p1 \<and> r2 = Some p1)
                  \<and> map_option pm_reception_time r2 = map_option pm_reception_time r1
                  \<and> length (filter (\<lambda>p. logical_key_of (p_db st2) p
                                  = source_key (p_db st2) (c_item_hash c) (c_sender c) txh)
                         (pending_messages (p_db st2))) = 1)"
proof -
  let ?K = "\<lambda>d p. logical_key_of d p = source_key d (c_item_hash c) (c_sender c) txh"
  let ?A1 = "add_pending_message_spec rules now_a M t_a origin txh chk st"
  let ?st1 = "snd ?A1"
  let ?A2 = "add_pending_message_spec rules now_b M t_b origin txh chk ?st1"
  let ?st2 = "snd ?A2"
  have same: "\<And>d' :: database. chain_txs d' = chain_txs (p_db st) \<Longrightarrow> ?K d' = ?K (p_db st)"
  proof -
    fix d' :: database assume eq: "chain_txs d' = chain_txs (p_db st)"
    show "?K d' = ?K (p_db st)"
      by (simp only: logical_key_of_chain_txs [OF eq] source_key_chain_txs [OF eq])
  qed
  have goal: "(\<exists>p1. fst ?A1 = Some p1 \<and> fst ?A2 = Some p1)
      \<and> length (filter (?K (p_db ?st2)) (pending_messages (p_db ?st2))) = 1"
  proof (cases "find (?K (p_db st)) (pending_messages (p_db st))")
    case (Some e)
    note ex1 = add_pending_message_existing [OF wf Some, of now_a t_a origin chk]
    have K1: "?K (p_db ?st1) = ?K (p_db st)" by (rule same [OF ex1(3)])
    have f1: "find (?K (p_db ?st1)) (pending_messages (p_db ?st1)) = Some e"
      by (simp only: K1 ex1(2) Some)
    note ex2 = add_pending_message_existing [OF wf f1, of now_b t_b origin chk]
    have K2: "?K (p_db ?st2) = ?K (p_db st)"
      by (rule same) (simp only: ex2(3) ex1(3))
    have "length (filter (?K (p_db ?st2)) (pending_messages (p_db ?st2))) = 1"
      by (simp only: K2 ex2(2) ex1(2) filter_le_one_find [OF uniq Some])
    with ex1(1) ex2(1) show ?thesis by simp
  next
    case None
    let ?new = "new_pending_message c (fresh_id (pending_messages (p_db st))) t_a now_a origin txh chk"
    note n1 = add_pending_message_new [OF wf None, of now_a t_a origin chk]
    have Knew: "?K (p_db st) ?new" by (rule new_pending_message_key)
    have K1: "?K (p_db ?st1) = ?K (p_db st)" by (rule same [OF n1(3)])
    have f1: "find (?K (p_db ?st1)) (pending_messages (p_db ?st1)) = Some ?new"
      by (simp only: K1 n1(2) find_append_new [OF None Knew])
    note ex2 = add_pending_message_existing [OF wf f1, of now_b t_b origin chk]
    have K2: "?K (p_db ?st2) = ?K (p_db st)"
      by (rule same) (simp only: ex2(3) n1(3))
    have "filter (?K (p_db st)) (pending_messages (p_db st) @ [?new]) = [?new]"
      using find_None_filter [OF None] Knew by simp
    then have "length (filter (?K (p_db ?st2)) (pending_messages (p_db ?st2))) = 1"
      by (simp only: K2 ex2(2) n1(2)) simp
    with n1(1) ex2(1) show ?thesis by simp
  qed
  then show ?thesis by (auto simp: case_prod_beta)
qed

theorem add_pending_message_twice_witness:
  "fst (add_pending_message_spec example_rules 1000 example_message_dict 1000 ''p2p'' None True
          example_publisher_state)
     = Some (new_pending_message example_candidate 1 1000 1000 ''p2p'' None True)
   \<and> fst (add_pending_message_spec example_rules 2000 example_message_dict 2000 ''p2p'' None True
          (snd (add_pending_message_spec example_rules 1000 example_message_dict 1000 ''p2p'' None
                  True example_publisher_state)))
     = Some (new_pending_message example_candidate 1 1000 1000 ''p2p'' None True)
   \<and> length (filter (\<lambda>p. logical_key_of
                  (p_db (snd (add_pending_message_spec example_rules 2000 example_message_dict 2000
                     ''p2p'' None True
                     (snd (add_pending_message_spec example_rules 1000 example_message_dict 1000
                        ''p2p'' None True example_publisher_state))))) p
                 = (''4bbcfe7c4775f9e1'', ''0x696879aE4F6d'', None, None))
        (pending_messages
           (p_db (snd (add_pending_message_spec example_rules 2000 example_message_dict 2000
              ''p2p'' None True
              (snd (add_pending_message_spec example_rules 1000 example_message_dict 1000
                 ''p2p'' None True example_publisher_state))))))) = 1"
proof -
  have wf: "parse_candidate example_rules example_message_dict = Some example_candidate"
    by (simp add: parse_candidate_def example_rules_def example_message_dict_def
          example_candidate_def INCOMING_MESSAGE_AUTHORIZED_FIELDS_def Let_def)
  have none: "find (\<lambda>p. logical_key_of (p_db example_publisher_state) p
                   = source_key (p_db example_publisher_state) (c_item_hash example_candidate)
                       (c_sender example_candidate) None)
                (pending_messages (p_db example_publisher_state)) = None"
    by (simp add: example_publisher_state_def empty_database_def)
  have uniq: "length (filter (\<lambda>p. logical_key_of (p_db example_publisher_state) p
                   = source_key (p_db example_publisher_state) (c_item_hash example_candidate)
                       (c_sender example_candidate) None)
                (pending_messages (p_db example_publisher_state))) \<le> 1"
    by (simp add: example_publisher_state_def empty_database_def)
  have first: "fst (add_pending_message_spec example_rules 1000 example_message_dict 1000 ''p2p''
                      None True example_publisher_state)
                 = Some (new_pending_message example_candidate 1 1000 1000 ''p2p'' None True)"
    using add_pending_message_new(1) [OF wf none, of 1000 1000 "''p2p''" True]
    by (simp add: example_publisher_state_def empty_database_def fresh_id_def)
  have key: "\<And>d. source_key d (c_item_hash example_candidate) (c_sender example_candidate) None
               = (''4bbcfe7c4775f9e1'', ''0x696879aE4F6d'', None, None)"
    by (simp add: source_key_def example_candidate_def)
  show ?thesis
    using add_pending_message_twice [OF wf uniq, where now_a = 1000 and t_a = 1000
            and now_b = 2000 and t_b = 2000 and origin = "''p2p''" and chk = True] first
    by (simp add: case_prod_beta key)
qed

section \<open>Properties of the pipeline for programs and instances\<close>

lemma vm_handler_all_missing:
  assumes "get_volume_refs c \<noteq> []"
    and "\<forall>v \<in> set (get_volume_refs c). resolve_volume d v = None"
  shows "vm_handler pm c d =
           (Rejected VM_VOLUME_NOT_FOUND
              (Some (JObj [(''errors'', JList (map (\<lambda>v. JStr (vr_ref v)) (get_volume_refs c)))])), d)"
proof -
  have "filter (\<lambda>v. resolve_volume d v = None) (get_volume_refs c) = get_volume_refs c"
    using assms(2) by (simp add: filter_True)
  with assms(1) show ?thesis by (simp add: vm_handler_def Let_def o_def)
qed

lemma reject_message_effect:
  "vms (reject_message pm code details d) = vms d"
  "vm_versions (reject_message pm code details d) = vm_versions d"
  "message_rows (reject_message pm code details d) = message_rows d"
  "rejected_messages (reject_message pm code details d) = rejected_messages d @
     [\<lparr>rm_item_hash = Some (pm_item_hash pm), rm_message = raw_message pm,
       rm_error_code = code, rm_details = details, rm_traceback = None\<rparr>]"
  "map_option fst (message_status (reject_message pm code details d) (pm_item_hash pm)) = Some REJECTED"
  "pm \<notin> set (pending_messages (reject_message pm code details d))"
  by (simp_all add: reject_message_def delete_pending_def set_status_def split: option.splits)

text \<open>
  C8. For every pending program or instance message whose content is fetched, passes the
  hash and signature checks and parses, which declares at least one volume ref and none
  of whose declared refs resolves to a stored file: the pipeline, processing the message,
  creates no VM row, no version pointer and no message row, sets the status of the item
  hash to rejected, appends one rejected message with error code \<open>VM_VOLUME_NOT_FOUND\<close>,
  the declared (all missing) refs under \<open>details.errors\<close> and no traceback, and removes
  the pending row. When the message is the only pending row, a pipeline pass is this step.
\<close>

theorem missing_volumes_rejected:
  assumes "pm \<in> set (pending_messages d)"
    and "(if pm_fetched pm then pm_item_content pm else fetch_content svc pm) = Some cnt"
    and "pm_fetched pm \<or> content_sha256 svc cnt = pm_item_hash pm"
    and "pm_check_message pm \<longrightarrow> verify_signature svc pm cnt"
    and "parse_content svc (pm_type pm) cnt = Some (Executable c)"
    and "get_volume_refs c \<noteq> []"
    and "\<forall>v \<in> set (get_volume_refs c). resolve_volume d v = None"
  shows "vms (process_pending_message svc pm d) = vms d
       \<and> vm_versions (process_pending_message svc pm d) = vm_versions d
       \<and> message_rows (process_pending_message svc pm d) = message_rows d
       \<and> map_option fst (message_status (process_pending_message svc pm d) (pm_item_hash pm))
           = Some REJECTED
       \<and> rejected_messages (process_pending_message svc pm d) = rejected_messages d @
            [\<lparr>rm_item_hash = Some (pm_item_hash pm), rm_message = raw_message pm,
              rm_error_code = VM_VOLUME_NOT_FOUND,
              rm_details = Some (JObj [(''errors'',
                             JList (map (\<lambda>v. JStr (vr_ref v)) (get_volume_refs c)))]),
              rm_traceback = None\<rparr>]
       \<and> pm \<notin> set (pending_messages (process_pending_message svc pm d))
       \<and> (pending_messages d = [pm] \<longrightarrow>
            pipeline_pass svc d = process_pending_message svc pm d)"
proof -
  have step: "process_pending_message svc pm d =
      reject_message pm VM_VOLUME_NOT_FOUND
        (Some (JObj [(''errors'', JList (map (\<lambda>v. JStr (vr_ref v)) (get_volume_refs c)))])) d"
    using assms(1-5) vm_handler_all_missing [OF assms(6,7), of pm]
    by (auto simp add: process_pending_message_def)
  have "pending_messages d = [pm] \<longrightarrow> pipeline_pass svc d = process_pending_message svc pm d"
    by (simp add: pipeline_pass_def scan_order_def)
  then show ?thesis
    by (simp only: step reject_message_effect) simp
qed

theorem missing_volumes_rejected_witness:
  "vms (pipeline_pass example_pipeline_services example_instance_db) = Map.empty
   \<and> map_option fst (message_status (pipeline_pass example_pipeline_services example_instance_db)
                       ''734a1287a2b7'') = Some REJECTED
   \<and> rejected_messages (pipeline_pass example_pipeline_services example_instance_db) =
        [\<lparr>rm_item_hash = Some ''734a1287a2b7'', rm_message = raw_message example_pending_instance,
          rm_error_code = VM_VOLUME_NOT_FOUND,
          rm_details = Some (JObj [(''errors'', JList [JStr ''5f31b0706f59'', JStr ''549ec451d9b0''])]),
          rm_traceback = None\<rparr>]
   \<and> example_pending_instance
        \<notin> set (pending_messages (pipeline_pass example_pipeline_services example_instance_db))"
proof -
  have refs: "get_volume_refs example_instance =
                [\<lparr>vr_ref = ''5f31b0706f59'', vr_use_latest = False\<rparr>,
                 \<lparr>vr_ref = ''549ec451d9b0'', vr_use_latest = True\<rparr>]"
    by (simp add: example_instance_def)
  have a1: "example_pending_instance \<in> set (pending_messages example_instance_db)"
    by (simp add: example_instance_db_def)
  have a2: "(if pm_fetched example_pending_instance then pm_item_content example_pending_instance
             else fetch_content example_pipeline_services example_pending_instance)
              = Some ''{instance}''"
    by (simp add: example_pending_instance_def)
  have a3: "pm_fetched example_pending_instance
            \<or> content_sha256 example_pipeline_services ''{instance}''
                = pm_item_hash example_pending_instance"
    by (simp add: example_pending_instance_def)
  have a4: "pm_check_message example_pending_instance
            \<longrightarrow> verify_signature example_pipeline_services example_pending_instance ''{instance}''"
    by (simp add: example_pending_instance_def)
  have a5: "parse_content example_pipeline_services (pm_type example_pending_instance) ''{instance}''
              = Some (Executable example_instance)"
    by (simp add: example_pending_instance_def example_pipeline_services_def)
  have a6: "get_volume_refs example_instance \<noteq> []"
    by (simp add: refs)
  have a7: "\<forall>v \<in> set (get_volume_refs example_instance).
              resolve_volume example_instance_db v = None"
    by (simp add: refs resolve_volume_def example_instance_db_def empty_database_def)
  have one: "pending_messages example_instance_db = [example_pending_instance]"
    by (simp add: example_instance_db_def)
  have empty: "vms example_instance_db = Map.empty" "rejected_messages example_instance_db = []"
    by (simp_all add: example_instance_db_def empty_database_def)
  have h: "pm_item_hash example_pending_instance = ''734a1287a2b7''"
    by (simp add: example_pending_instance_def)
  show ?thesis
    using missing_volumes_rejected [OF a1 a2 a3 a4 a5 a6 a7]
    by (simp add: one empty h refs)
qed

end
